theory Spec2Isabelle
  imports Main
begin

section \<open>Data model of deliverychecker.ts\<close>

text \<open>
  Addresses are the integers of the specification's data model. A \<^verbatim>\<open>number\<close> of the
  code is an IEEE-754 double; one whose value is an integer is read as the \<^typ>\<open>int\<close>
  it denotes. On such numbers strict equality is equality of the integers, and the
  sign of a difference \<^verbatim>\<open>a - b\<close> is the sign of the difference of the integers; a sum
  is rounded (\<open>numberAdd\<close> below), and the conversion of a number to text is the
  runtime's, a parameter \<open>Number_toString\<close> of the functions that build a message.
\<close>

record Parcel =
  pickupAddress :: int
  dropoffAddress :: int

type_synonym TruckPath = "int list"

text \<open>The action of a step: \<^verbatim>\<open>'pickup' | 'dropoff' | null\<close>.\<close>

datatype action = Pickup | Dropoff | ActionNull

record Step =
  address :: int
  action :: action

datatype error_code =
    delivery_address_not_in_path
  | delivery_dropoff_before_pickup
  | dropoff_address_not_in_path
  | unknown_error

record Error =
  error_code :: error_code
  error_message :: string

text \<open>
  The output is a success with its steps or an error. An entry of the steps is
  \<open>None\<close> where the source's \<^verbatim>\<open>find\<close> returns \<^verbatim>\<open>undefined\<close>.
\<close>

datatype Output = StatusSuccess "Step option list" | StatusError Error

section \<open>Library functions of the language used by the source\<close>

text \<open>
  \<^verbatim>\<open>Array.prototype.indexOf\<close>: a scan from index 0 that returns the index of the
  first element strictly equal to the one searched, and -1 when there is none.
\<close>

fun indexOfFrom :: "int \<Rightarrow> int list \<Rightarrow> int \<Rightarrow> int" where
  "indexOfFrom k [] a = - 1"
| "indexOfFrom k (x # xs) a = (if x = a then k else indexOfFrom (k + 1) xs a)"

definition indexOf :: "int list \<Rightarrow> int \<Rightarrow> int" where
  "indexOf xs a = indexOfFrom 0 xs a"

text \<open>
  The decimal digits of a natural number: the property key of an array index.
\<close>

fun natToString :: "nat \<Rightarrow> string" where
  "natToString n =
     (if n < 10 then [char_of (48 + n)]
      else natToString (n div 10) @ [char_of (48 + n mod 10)])"

declare natToString.simps [simp del]

text \<open>
  The sum of two integer-valued doubles: the exact sum, rounded to the nearest double,
  a tie going to the even significand. A double has a significand of 53 bits, so an
  integer of \<open>53 + e\<close> bits keeps its upper 53 bits and loses the lower \<open>e\<close>. The sums
  of the source add 1 or 2 to an address, which never leaves the range of the doubles.
\<close>

function bitLength :: "int \<Rightarrow> nat" where
  "bitLength n = (if n \<le> 0 then 0 else Suc (bitLength (n div 2)))"
  by pat_completeness auto
termination
  by (relation "measure nat") auto

declare bitLength.simps [simp del]

definition roundToDouble :: "int \<Rightarrow> int" where
  "roundToDouble n =
     (let m = \<bar>n\<bar>;
          e = bitLength m - 53
      in if e = 0 then n
         else
           let q = m div 2 ^ e;
               r = m mod 2 ^ e;
               half = 2 ^ (e - 1);
               significand = (if half < r \<or> (r = half \<and> odd q) then q + 1 else q)
           in sgn n * (significand * 2 ^ e))"

definition numberAdd :: "int \<Rightarrow> int \<Rightarrow> int" where
  "numberAdd a b = roundToDouble (a + b)"

section \<open>The feasibility check of one parcel\<close>

text \<open>
  The source returns \<^verbatim>\<open>[true, [Step, Step]] | [false, Error]\<close>; the tagged tuple is
  a sum, \<open>Inl\<close> the error. A template literal puts the runtime's text of a number,
  \<open>Number_toString\<close>, between the parts of the message.
\<close>

definition parcelCanBeDelivered ::
  "(int \<Rightarrow> string) \<Rightarrow> Parcel \<Rightarrow> TruckPath \<Rightarrow> Error + (Step \<times> Step)"
where
  "parcelCanBeDelivered Number_toString parcel truckPath =
     (let pickupIndex = indexOf truckPath (pickupAddress parcel);
          dropoffIndex = indexOf truckPath (dropoffAddress parcel)
      in if pickupIndex = - 1 then
           Inl \<lparr>error_code = delivery_address_not_in_path,
                error_message = ''Delivery address '' @ Number_toString (pickupAddress parcel)
                  @ '' not in path''\<rparr>
         else if dropoffIndex = - 1 then
           Inl \<lparr>error_code = dropoff_address_not_in_path,
                error_message = ''Dropoff address '' @ Number_toString (dropoffAddress parcel)
                  @ '' not in path''\<rparr>
         else if dropoffIndex < pickupIndex then
           Inl \<lparr>error_code = delivery_dropoff_before_pickup,
                error_message = ''Dropoff address '' @ Number_toString (dropoffAddress parcel)
                  @ '' before pickup address '' @ Number_toString (pickupAddress parcel)\<rparr>
         else
           Inr (\<lparr>address = pickupAddress parcel, action = Pickup\<rparr>,
                \<lparr>address = dropoffAddress parcel, action = Dropoff\<rparr>))"

section \<open>The aggregator\<close>

text \<open>\<^verbatim>\<open>maybeSteps.every((tuple) => tuple[0] === true)\<close>\<close>

definition parcelsAreAllDeliverable :: "(Error + (Step \<times> Step)) list \<Rightarrow> bool" where
  "parcelsAreAllDeliverable maybeSteps = list_all (\<lambda>tuple. \<not> isl tuple) maybeSteps"

text \<open>
  The \<^verbatim>\<open>reduce\<close> that builds \<^verbatim>\<open>fullSteps\<close> from the sorted \<^verbatim>\<open>steps\<close>: the callback
  runs at every index \<open>i\<close> of \<open>steps\<close> in turn, with the accumulator.
\<close>

definition fullSteps :: "Step list \<Rightarrow> Step list" where
  "fullSteps steps =
     foldl (\<lambda>acc i.
        let step = steps ! i in
        if i = length steps - 1 then acc @ [step]
        else
          let nextStep = steps ! (i + 1);
              isStopMissed = (address nextStep = numberAdd (address step) 2)
          in if isStopMissed
             then acc @ [step, \<lparr>address = numberAdd (address step) 1, action = ActionNull\<rparr>]
             else acc @ [step])
       [] [0..<length steps]"

text \<open>
  The \<^verbatim>\<open>map\<close> that builds \<^verbatim>\<open>rightOrderStep\<close>: one entry per index of
  \<^verbatim>\<open>fullSteps\<close>, here \<open>full\<close>.
  Beyond the end of the truck path \<^verbatim>\<open>truckPath[i]\<close> is \<^verbatim>\<open>undefined\<close>, which no address
  equals, so \<^verbatim>\<open>find\<close> returns \<^verbatim>\<open>undefined\<close>.
\<close>

definition rightOrderStep :: "Step list \<Rightarrow> TruckPath \<Rightarrow> Step option list" where
  "rightOrderStep full truckPath =
     map (\<lambda>i. if i < length truckPath
               then find (\<lambda>step. address step = truckPath ! i) full
               else None)
       [0..<length full]"

text \<open>
  \<^verbatim>\<open>sort\<close> with the comparator \<^verbatim>\<open>a.address - b.address\<close> is a stable sort by address,
  here \<^const>\<open>sort_key\<close>. In the branch that reads \<^verbatim>\<open>tuple[1]\<close> as a pair of steps every
  tuple is a success (the type guard has held), so \<^const>\<open>projr\<close> is applied to \<open>Inr\<close> only.
\<close>

definition generateTruckSteps ::
  "(int \<Rightarrow> string) \<Rightarrow> Parcel list \<Rightarrow> TruckPath \<Rightarrow> Output"
where
  "generateTruckSteps Number_toString deliveries truckPath =
     (let maybeSteps =
            map (\<lambda>parcel. parcelCanBeDelivered Number_toString parcel truckPath) deliveries
      in
      if \<not> parcelsAreAllDeliverable maybeSteps then
        (case find isl maybeSteps of
           Some (Inl error) \<Rightarrow> StatusError error
         | _ \<Rightarrow> StatusError \<lparr>error_code = unknown_error, error_message = ''Unknown error''\<rparr>)
      else
        let onlySteps = map projr maybeSteps;
            flatSteps = concat (map (\<lambda>(a, b). [a, b]) onlySteps);
            steps = sort_key address flatSteps
        in StatusSuccess (rightOrderStep (fullSteps steps) truckPath))"

section \<open>The entry point\<close>

text \<open>
  The values \<^verbatim>\<open>JSON.parse\<close> returns, and \<^verbatim>\<open>undefined\<close>, which reading a property
  that is not there returns. An object is the list of its own properties.
\<close>

datatype jsvalue =
    Undefined
  | JNull
  | JBool bool
  | JNumber int
  | JString string
  | JArray "jsvalue list"
  | JObject "(string \<times> jsvalue) list"

datatype js_error = SyntaxError | TypeError

text \<open>
  \<^verbatim>\<open>tuple[i]\<close>: a TypeError on \<^verbatim>\<open>null\<close> and \<^verbatim>\<open>undefined\<close>, the element of an array,
  the character of a string, the property named by the index of an object, and
  \<^verbatim>\<open>undefined\<close> where there is none.
\<close>

fun getIndex :: "jsvalue \<Rightarrow> nat \<Rightarrow> js_error + jsvalue" where
  "getIndex Undefined i = Inl TypeError"
| "getIndex JNull i = Inl TypeError"
| "getIndex (JBool b) i = Inr Undefined"
| "getIndex (JNumber n) i = Inr Undefined"
| "getIndex (JString s) i = Inr (if i < length s then JString [s ! i] else Undefined)"
| "getIndex (JArray xs) i = Inr (if i < length xs then xs ! i else Undefined)"
| "getIndex (JObject kvs) i =
     Inr (case map_of kvs (natToString i) of Some v \<Rightarrow> v | None \<Rightarrow> Undefined)"

text \<open>
  \<^verbatim>\<open>parcel.name\<close> for the two names the source reads, \<^verbatim>\<open>pickupAddress\<close> and
  \<^verbatim>\<open>dropoffAddress\<close>: only an object can have them.
\<close>

fun getField :: "jsvalue \<Rightarrow> string \<Rightarrow> js_error + jsvalue" where
  "getField Undefined name = Inl TypeError"
| "getField JNull name = Inl TypeError"
| "getField (JObject kvs) name =
     Inr (case map_of kvs name of Some v \<Rightarrow> v | None \<Rightarrow> Undefined)"
| "getField v name = Inr Undefined"

text \<open>\<^verbatim>\<open>typeof v === 'number'\<close>\<close>

fun isNumber :: "jsvalue \<Rightarrow> bool" where
  "isNumber (JNumber n) = True"
| "isNumber v = False"

definition isParcel :: "jsvalue \<Rightarrow> js_error + bool" where
  "isParcel parcel =
     (case getField parcel ''pickupAddress'' of
        Inl e \<Rightarrow> Inl e
      | Inr p \<Rightarrow>
          if p = Undefined then Inr False
          else (case getField parcel ''dropoffAddress'' of
                  Inl e \<Rightarrow> Inl e
                | Inr d \<Rightarrow> Inr (d \<noteq> Undefined \<and> isNumber p \<and> isNumber d)))"

definition ParcelFromTuple :: "jsvalue \<Rightarrow> js_error + jsvalue" where
  "ParcelFromTuple tuple =
     (case getIndex tuple 0 of
        Inl e \<Rightarrow> Inl e
      | Inr p \<Rightarrow>
          (case getIndex tuple 1 of
             Inl e \<Rightarrow> Inl e
           | Inr d \<Rightarrow> Inr (JObject [(''pickupAddress'', p), (''dropoffAddress'', d)])))"

text \<open>\<^verbatim>\<open>Array.prototype.map\<close> and \<^verbatim>\<open>every\<close> with a callback that can throw.\<close>

fun mapThrowing :: "('a \<Rightarrow> js_error + 'b) \<Rightarrow> 'a list \<Rightarrow> js_error + 'b list" where
  "mapThrowing f [] = Inr []"
| "mapThrowing f (x # xs) =
     (case f x of
        Inl e \<Rightarrow> Inl e
      | Inr y \<Rightarrow> (case mapThrowing f xs of Inl e \<Rightarrow> Inl e | Inr ys \<Rightarrow> Inr (y # ys)))"

fun everyThrowing :: "('a \<Rightarrow> js_error + bool) \<Rightarrow> 'a list \<Rightarrow> js_error + bool" where
  "everyThrowing f [] = Inr True"
| "everyThrowing f (x # xs) =
     (case f x of
        Inl e \<Rightarrow> Inl e
      | Inr b \<Rightarrow> if b then everyThrowing f xs else Inr False)"

text \<open>
  \<^verbatim>\<open>deliveries.length !== 0 && Array.isArray(deliveries) && deliveries.every(isParcel)\<close>:
  reading \<^verbatim>\<open>length\<close> throws on \<^verbatim>\<open>null\<close> and \<^verbatim>\<open>undefined\<close>; whatever it is on a value
  that is not an array, \<^verbatim>\<open>Array.isArray\<close> is false there.
\<close>

fun isDeliveries :: "jsvalue \<Rightarrow> js_error + bool" where
  "isDeliveries Undefined = Inl TypeError"
| "isDeliveries JNull = Inl TypeError"
| "isDeliveries (JArray xs) = (if length xs \<noteq> 0 then everyThrowing isParcel xs else Inr False)"
| "isDeliveries v = Inr False"

fun isTruckPath :: "jsvalue \<Rightarrow> bool" where
  "isTruckPath (JArray xs) = list_all isNumber xs"
| "isTruckPath v = False"

text \<open>
  The type guards narrow a value to \<^verbatim>\<open>Deliveries\<close> and to \<^verbatim>\<open>TruckPath\<close>; the typed
  values are read off the validated ones.
\<close>

fun asNumber :: "jsvalue \<Rightarrow> int option" where
  "asNumber (JNumber n) = Some n"
| "asNumber v = None"

fun asParcel :: "jsvalue \<Rightarrow> Parcel option" where
  "asParcel (JObject kvs) =
     (case (map_of kvs ''pickupAddress'', map_of kvs ''dropoffAddress'') of
        (Some (JNumber p), Some (JNumber d)) \<Rightarrow> Some \<lparr>pickupAddress = p, dropoffAddress = d\<rparr>
      | _ \<Rightarrow> None)"
| "asParcel v = None"

fun asTruckPath :: "jsvalue \<Rightarrow> TruckPath" where
  "asTruckPath (JArray xs) = List.map_filter asNumber xs"
| "asTruckPath v = []"

text \<open>What \<^verbatim>\<open>console.log\<close> has printed: a text or the result of the algorithm.\<close>

datatype logged = LogText string | LogResult Output

text \<open>
  \<^verbatim>\<open>main\<close> reads \<^verbatim>\<open>process.argv[2]\<close> and \<^verbatim>\<open>process.argv[3]\<close> (\<open>None\<close> when the argument
  is not there) and calls the runtime's \<^verbatim>\<open>JSON.parse\<close>, a parameter here: \<open>None\<close> is
  the SyntaxError it throws on a text that is not JSON. The runtime's conversion of a
  number to text is the parameter the algorithm takes. The result is the exception
  that leaves \<^verbatim>\<open>main\<close>, or what was printed and the number returned.
\<close>

definition main ::
  "(string \<Rightarrow> jsvalue option) \<Rightarrow> (int \<Rightarrow> string) \<Rightarrow> string option \<Rightarrow> string option
     \<Rightarrow> js_error + (logged list \<times> int)"
where
  "main JSON_parse Number_toString argv2 argv3 =
     (case (argv2, argv3) of
        (Some deliveriesFromArgv, Some truckPathFromArgv) \<Rightarrow>
          if deliveriesFromArgv = [] \<or> truckPathFromArgv = [] then
            Inr ([LogText ''Usage: node deliverychecker.js <deliveries> <truckPath>''], 1)
          else
            (case JSON_parse deliveriesFromArgv of
               None \<Rightarrow> Inl SyntaxError
             | Some (JArray tuples) \<Rightarrow>
                 if length tuples = 0 then Inr ([LogText ''Invalid deliveries''], 2)
                 else
                   (case mapThrowing ParcelFromTuple tuples of
                      Inl e \<Rightarrow> Inl e
                    | Inr deliveries \<Rightarrow>
                        (case JSON_parse truckPathFromArgv of
                           None \<Rightarrow> Inl SyntaxError
                         | Some truckPath \<Rightarrow>
                             (case isDeliveries (JArray deliveries) of
                                Inl e \<Rightarrow> Inl e
                              | Inr ok \<Rightarrow>
                                  if \<not> ok then Inr ([LogText ''Invalid deliveries''], 2)
                                  else if \<not> isTruckPath truckPath then
                                    Inr ([LogText ''Invalid truckPath''], 4)
                                  else
                                    Inr ([LogResult
                                           (generateTruckSteps Number_toString
                                              (List.map_filter asParcel deliveries)
                                              (asTruckPath truckPath))], 0))))
             | Some other \<Rightarrow> Inr ([LogText ''Invalid deliveries''], 2))
      | _ \<Rightarrow> Inr ([LogText ''Usage: node deliverychecker.js <deliveries> <truckPath>''], 1))"

text \<open>
  The condition under which \<^verbatim>\<open>main\<close> goes on to map the tuples:
  \<^verbatim>\<open>Array.isArray(rawDeliveries)\<close> and \<^verbatim>\<open>rawDeliveries.length\<close> is not 0.
\<close>

fun nonEmptyArray :: "jsvalue \<Rightarrow> bool" where
  "nonEmptyArray (JArray xs) = (xs \<noteq> [])"
| "nonEmptyArray v = False"

text \<open>
  \<^verbatim>\<open>JSON.parse\<close> at the argument texts of the tests of \<^verbatim>\<open>main\<close> in
  deliverychecker.test.ts. It is applied below to these texts and to texts that are
  not JSON, where it throws.
\<close>

definition JSON_parse_table :: "string \<Rightarrow> jsvalue option" where
  "JSON_parse_table s =
     (if s = ''[[1, 2]]'' then Some (JArray [JArray [JNumber 1, JNumber 2]])
      else if s = ''[1, 2]'' then Some (JArray [JNumber 1, JNumber 2])
      else if s = ''1'' then Some (JNumber 1)
      else if s = ''2'' then Some (JNumber 2)
      else None)"

text \<open>
  The runtime's conversion of a number to text at the integers 0 to 9, which it prints
  as their digit. It is applied below to the addresses of the source's tests, all of
  them among these.
\<close>

definition Number_toString_table :: "int \<Rightarrow> string" where
  "Number_toString_table n = (if 0 \<le> n \<and> n < 10 then [char_of (48 + nat n)] else [])"

section \<open>The steps of a success, as the specification words them\<close>

text \<open>
  The step pairs of the parcels, flattened: for each parcel in turn its pickup step,
  then its dropoff step.
\<close>

definition flatSteps_spec :: "Parcel list \<Rightarrow> Step list" where
  "flatSteps_spec deliveries =
     concat (map (\<lambda>parcel. [\<lparr>address = pickupAddress parcel, action = Pickup\<rparr>,
                             \<lparr>address = dropoffAddress parcel, action = Dropoff\<rparr>])
               deliveries)"

text \<open>
  Gap-fill of a sequence \<open>s\<close>: each step \<open>s[i]\<close> in turn, followed by a synthetic step
  at \<open>s[i].address + 1\<close> with no action when there is a next step \<open>s[i+1]\<close> and
  \<open>s[i+1].address = s[i].address + 2\<close>.
\<close>

definition gapFill_spec :: "Step list \<Rightarrow> Step list" where
  "gapFill_spec s =
     concat (map (\<lambda>i. if Suc i < length s \<and> address (s ! Suc i) = address (s ! i) + 2
                       then [s ! i, \<lparr>address = address (s ! i) + 1, action = ActionNull\<rparr>]
                       else [s ! i])
               [0..<length s])"

text \<open>
  The addresses \<open>a\<close> at which the code's \<open>a + 1\<close> and \<open>a + 2\<close> are the integers
  \<open>a + 1\<close> and \<open>a + 2\<close>: the doubles hold every integer from \<open>- 2^53\<close> to \<open>2^53\<close>.
\<close>

definition exactAddress :: "int \<Rightarrow> bool" where
  "exactAddress a = (- (2 ^ 53) \<le> a \<and> a \<le> 2 ^ 53 - 2)"

section \<open>Facts about indexOf\<close>

lemma indexOfFrom_absent: "a \<notin> set xs \<Longrightarrow> indexOfFrom k xs a = - 1"
  by (induction xs arbitrary: k) auto

lemma indexOfFrom_first:
  "i < length xs \<Longrightarrow> xs ! i = a \<Longrightarrow> (\<forall>j<i. xs ! j \<noteq> a) \<Longrightarrow> indexOfFrom k xs a = k + int i"
proof (induction xs arbitrary: k i)
  case Nil
  then show ?case by simp
next
  case (Cons x xs)
  show ?case
  proof (cases i)
    case 0
    with Cons.prems show ?thesis by simp
  next
    case (Suc m)
    from Cons.prems Suc have ne: "x \<noteq> a" by fastforce
    from Cons.prems Suc have m: "m < length xs" "xs ! m = a" by simp_all
    from Cons.prems Suc have "\<forall>j<m. xs ! j \<noteq> a" by fastforce
    with m have "indexOfFrom (k + 1) xs a = k + 1 + int m" by (rule Cons.IH)
    with ne Suc show ?thesis by simp
  qed
qed

lemma indexOf_absent: "a \<notin> set xs \<Longrightarrow> indexOf xs a = - 1"
  by (simp add: indexOf_def indexOfFrom_absent)

lemma indexOf_first:
  "i < length xs \<Longrightarrow> xs ! i = a \<Longrightarrow> (\<forall>j<i. xs ! j \<noteq> a) \<Longrightarrow> indexOf xs a = int i"
  by (simp add: indexOf_def indexOfFrom_first)

section \<open>Claims about parcelCanBeDelivered\<close>

text \<open>
  C4. When the pickup address of the parcel does not occur in the truck path,
  parcelCanBeDelivered fails with the error code of a pickup that is not in the path
  (\<^verbatim>\<open>delivery_address_not_in_path\<close>) and the message "Delivery address p not in path",
  p the text the runtime gives the pickup address.
\<close>

theorem parcelCanBeDelivered_pickup_absent:
  assumes "pickupAddress parcel \<notin> set truckPath"
  shows "parcelCanBeDelivered Number_toString parcel truckPath =
           Inl \<lparr>error_code = delivery_address_not_in_path,
                error_message = ''Delivery address '' @ Number_toString (pickupAddress parcel)
                  @ '' not in path''\<rparr>"
  using assms by (simp add: parcelCanBeDelivered_def Let_def indexOf_absent)

theorem parcelCanBeDelivered_pickup_absent_witness:
  "parcelCanBeDelivered Number_toString_table \<lparr>pickupAddress = 1, dropoffAddress = 2\<rparr> [2] =
     Inl \<lparr>error_code = delivery_address_not_in_path,
          error_message = ''Delivery address 1 not in path''\<rparr>"
proof -
  have s: "Number_toString_table 1 = ''1''"
    by code_simp
  show ?thesis
    using parcelCanBeDelivered_pickup_absent
      [where parcel = "\<lparr>pickupAddress = 1, dropoffAddress = 2\<rparr>" and truckPath = "[2]"
         and Number_toString = Number_toString_table]
    by (simp add: s)
qed

lemma indexOf_both:
  assumes "i < length truckPath" "truckPath ! i = pickupAddress parcel"
    "\<forall>j<i. truckPath ! j \<noteq> pickupAddress parcel"
    "k < length truckPath" "truckPath ! k = dropoffAddress parcel"
    "\<forall>j<k. truckPath ! j \<noteq> dropoffAddress parcel"
  shows "indexOf truckPath (pickupAddress parcel) = int i"
    and "indexOf truckPath (dropoffAddress parcel) = int k"
  using assms by (simp_all add: indexOf_first)

lemma dropoff_index_before:
  assumes "indexOf truckPath (pickupAddress parcel) = int i"
    and "indexOf truckPath (dropoffAddress parcel) = int k"
    and "k < i"
  shows "parcelCanBeDelivered Number_toString parcel truckPath =
           Inl \<lparr>error_code = delivery_dropoff_before_pickup,
                error_message = ''Dropoff address '' @ Number_toString (dropoffAddress parcel)
                  @ '' before pickup address '' @ Number_toString (pickupAddress parcel)\<rparr>"
  using assms by (simp add: parcelCanBeDelivered_def Let_def)

lemma Number_toString_samples:
  "Number_toString_table 1 = ''1''" "Number_toString_table 2 = ''2''"
  by code_simp+

text \<open>
  C1. When the pickup address and the dropoff address both occur in the truck path,
  at first positions i and k with i \<le> k, parcelCanBeDelivered succeeds with exactly
  two steps: the pickup step at the pickup address, then the dropoff step at the
  dropoff address.
\<close>

theorem parcelCanBeDelivered_success:
  assumes "i < length truckPath" "truckPath ! i = pickupAddress parcel"
    "\<forall>j<i. truckPath ! j \<noteq> pickupAddress parcel"
    "k < length truckPath" "truckPath ! k = dropoffAddress parcel"
    "\<forall>j<k. truckPath ! j \<noteq> dropoffAddress parcel"
    "i \<le> k"
  shows "parcelCanBeDelivered Number_toString parcel truckPath =
           Inr (\<lparr>address = pickupAddress parcel, action = Pickup\<rparr>,
                \<lparr>address = dropoffAddress parcel, action = Dropoff\<rparr>)"
proof -
  note idx = indexOf_both [OF assms(1-6)]
  from \<open>i \<le> k\<close> show ?thesis
    by (simp add: parcelCanBeDelivered_def Let_def idx)
qed

theorem parcelCanBeDelivered_success_witness:
  "(0::nat) < length [1, 2 :: int] \<and> (1::nat) < length [1, 2 :: int] \<and> (0::nat) \<le> 1 \<and>
   parcelCanBeDelivered Number_toString_table \<lparr>pickupAddress = 1, dropoffAddress = 2\<rparr> [1, 2] =
     Inr (\<lparr>address = 1, action = Pickup\<rparr>, \<lparr>address = 2, action = Dropoff\<rparr>)"
  using parcelCanBeDelivered_success
    [where i = 0 and truckPath = "[1, 2]" and k = 1
       and parcel = "\<lparr>pickupAddress = 1, dropoffAddress = 2\<rparr>"
       and Number_toString = Number_toString_table]
  by simp

text \<open>
  C5. When both addresses occur in the truck path and the first position k of the
  dropoff address is strictly before the first position i of the pickup address,
  parcelCanBeDelivered fails with the error code \<^verbatim>\<open>delivery_dropoff_before_pickup\<close> and
  the message "Dropoff address d before pickup address p", d and p the texts the runtime
  gives the two addresses.
\<close>

theorem parcelCanBeDelivered_dropoff_before_pickup:
  assumes "i < length truckPath" "truckPath ! i = pickupAddress parcel"
    "\<forall>j<i. truckPath ! j \<noteq> pickupAddress parcel"
    "k < length truckPath" "truckPath ! k = dropoffAddress parcel"
    "\<forall>j<k. truckPath ! j \<noteq> dropoffAddress parcel"
    "k < i"
  shows "parcelCanBeDelivered Number_toString parcel truckPath =
           Inl \<lparr>error_code = delivery_dropoff_before_pickup,
                error_message = ''Dropoff address '' @ Number_toString (dropoffAddress parcel)
                  @ '' before pickup address '' @ Number_toString (pickupAddress parcel)\<rparr>"
  using indexOf_both [OF assms(1-6)] \<open>k < i\<close> by (rule dropoff_index_before)

theorem parcelCanBeDelivered_dropoff_before_pickup_witness:
  "(1::nat) < length [2, 1 :: int] \<and> (0::nat) < 1 \<and>
   parcelCanBeDelivered Number_toString_table \<lparr>pickupAddress = 1, dropoffAddress = 2\<rparr> [2, 1] =
     Inl \<lparr>error_code = delivery_dropoff_before_pickup,
          error_message = ''Dropoff address 2 before pickup address 1''\<rparr>"
  using parcelCanBeDelivered_dropoff_before_pickup
    [where i = 1 and truckPath = "[2, 1]" and k = 0
       and parcel = "\<lparr>pickupAddress = 1, dropoffAddress = 2\<rparr>"
       and Number_toString = Number_toString_table]
  by (simp add: Number_toString_samples)

text \<open>
  C10. Only first occurrences count. In a truck path where the dropoff address occurs
  first at position k, before the first position i of the pickup address, and occurs
  again at a position m after i, parcelCanBeDelivered still fails, and the error has
  the code \<^verbatim>\<open>delivery_dropoff_before_pickup\<close>: the later dropoff stop does not make the
  parcel deliverable.
\<close>

theorem parcelCanBeDelivered_first_occurrences_only:
  assumes "i < length truckPath" "truckPath ! i = pickupAddress parcel"
    "\<forall>j<i. truckPath ! j \<noteq> pickupAddress parcel"
    "k < length truckPath" "truckPath ! k = dropoffAddress parcel"
    "\<forall>j<k. truckPath ! j \<noteq> dropoffAddress parcel"
    "k < i"
    "i < m" "m < length truckPath" "truckPath ! m = dropoffAddress parcel"
  shows "\<exists>e. parcelCanBeDelivered Number_toString parcel truckPath = Inl e
           \<and> error_code e = delivery_dropoff_before_pickup"
  using dropoff_index_before [OF indexOf_both [OF assms(1-6)] \<open>k < i\<close>, of Number_toString]
  by simp

theorem parcelCanBeDelivered_first_occurrences_only_witness:
  "(1::nat) < 2 \<and> (2::nat) < length [2, 1, 2 :: int] \<and> [2, 1, 2 :: int] ! 2 = 2 \<and>
   (\<exists>e. parcelCanBeDelivered Number_toString_table
           \<lparr>pickupAddress = 1, dropoffAddress = 2\<rparr> [2, 1, 2] = Inl e
       \<and> error_code e = delivery_dropoff_before_pickup)"
  using parcelCanBeDelivered_first_occurrences_only
    [where i = 1 and truckPath = "[2, 1, 2]" and k = 0 and m = 2
       and parcel = "\<lparr>pickupAddress = 1, dropoffAddress = 2\<rparr>"
       and Number_toString = Number_toString_table]
  by simp

section \<open>Claims about the error policy of generateTruckSteps\<close>

lemma find_isl_first:
  "list_all (\<lambda>t. \<not> isl t) before \<Longrightarrow> find isl (before @ Inl e # after) = Some (Inl e)"
  by (induction before) auto

lemma find_isl_located:
  "\<not> list_all (\<lambda>t. \<not> isl t) ms \<Longrightarrow> \<exists>e. find isl ms = Some (Inl e) \<and> Inl e \<in> set ms"
  by (induction ms) (auto simp: isl_def)

lemma parcelCanBeDelivered_error_code:
  "parcelCanBeDelivered Number_toString parcel truckPath = Inl e \<Longrightarrow> error_code e \<noteq> unknown_error"
  by (auto simp: parcelCanBeDelivered_def Let_def split: if_splits)

text \<open>
  C2. When the parcels are some feasible parcels, then an infeasible parcel, then any
  parcels at all, generateTruckSteps returns the error of that infeasible parcel, the
  first in the order of the input: the successes before it and whatever the later
  parcels give are ignored, and one error is reported.
\<close>

theorem generateTruckSteps_first_error:
  assumes "deliveries = before @ parcel # after"
    and "list_all (\<lambda>p. \<not> isl (parcelCanBeDelivered Number_toString p truckPath)) before"
    and "parcelCanBeDelivered Number_toString parcel truckPath = Inl e"
  shows "generateTruckSteps Number_toString deliveries truckPath = StatusError e"
proof -
  let ?f = "\<lambda>p. parcelCanBeDelivered Number_toString p truckPath"
  have m: "map ?f deliveries = map ?f before @ Inl e # map ?f after"
    using assms(1,3) by simp
  have ok: "list_all (\<lambda>t. \<not> isl t) (map ?f before)"
    using assms(2) by (simp add: list_all_iff)
  have "\<not> parcelsAreAllDeliverable (map ?f deliveries)"
    by (simp add: m parcelsAreAllDeliverable_def)
  moreover have "find isl (map ?f deliveries) = Some (Inl e)"
    unfolding m using ok by (rule find_isl_first)
  ultimately show ?thesis
    by (simp add: generateTruckSteps_def Let_def)
qed

theorem generateTruckSteps_first_error_witness:
  "parcelCanBeDelivered Number_toString_table \<lparr>pickupAddress = 2, dropoffAddress = 5\<rparr> [1, 4, 2, 3] =
     Inl \<lparr>error_code = dropoff_address_not_in_path,
          error_message = ''Dropoff address 5 not in path''\<rparr> \<and>
   generateTruckSteps Number_toString_table
     [\<lparr>pickupAddress = 1, dropoffAddress = 3\<rparr>, \<lparr>pickupAddress = 2, dropoffAddress = 5\<rparr>,
      \<lparr>pickupAddress = 9, dropoffAddress = 3\<rparr>]
     [1, 4, 2, 3] =
   StatusError \<lparr>error_code = dropoff_address_not_in_path,
                error_message = ''Dropoff address 5 not in path''\<rparr>"
proof -
  have a: "\<not> isl (parcelCanBeDelivered Number_toString_table \<lparr>pickupAddress = 1, dropoffAddress = 3\<rparr> [1, 4, 2, 3])"
    by code_simp
  have b: "parcelCanBeDelivered Number_toString_table \<lparr>pickupAddress = 2, dropoffAddress = 5\<rparr> [1, 4, 2, 3] =
      Inl \<lparr>error_code = dropoff_address_not_in_path,
           error_message = ''Dropoff address 5 not in path''\<rparr>"
    by code_simp
  show ?thesis
    using generateTruckSteps_first_error
      [where before = "[\<lparr>pickupAddress = 1, dropoffAddress = 3\<rparr>]"
         and parcel = "\<lparr>pickupAddress = 2, dropoffAddress = 5\<rparr>"
         and after = "[\<lparr>pickupAddress = 9, dropoffAddress = 3\<rparr>]"
         and truckPath = "[1, 4, 2, 3]" and Number_toString = Number_toString_table,
       OF _ _ b] a b
    by simp
qed

text \<open>
  C8. generateTruckSteps never returns the error with the code \<^verbatim>\<open>unknown_error\<close>,
  whatever its message, and so never the one with the message "Unknown error". The
  fallback cannot be reached: for any list of results, either all of them are
  successes or \<^verbatim>\<open>find\<close> locates a failure.
\<close>

theorem generateTruckSteps_never_unknown:
  "generateTruckSteps Number_toString deliveries truckPath \<noteq>
     StatusError \<lparr>error_code = unknown_error, error_message = msg\<rparr>
   \<and> (parcelsAreAllDeliverable maybeSteps \<or> (\<exists>e. find isl maybeSteps = Some (Inl e)))"
proof
  let ?ms = "map (\<lambda>p. parcelCanBeDelivered Number_toString p truckPath) deliveries"
  show "generateTruckSteps Number_toString deliveries truckPath \<noteq>
     StatusError \<lparr>error_code = unknown_error, error_message = msg\<rparr>"
  proof (cases "parcelsAreAllDeliverable ?ms")
    case True
    then show ?thesis by (simp add: generateTruckSteps_def Let_def)
  next
    case False
    then obtain e where f: "find isl ?ms = Some (Inl e)" and m: "Inl e \<in> set ?ms"
      using find_isl_located [of ?ms] by (auto simp: parcelsAreAllDeliverable_def)
    from m obtain p where "parcelCanBeDelivered Number_toString p truckPath = Inl e" by auto
    then have "error_code e \<noteq> unknown_error" by (rule parcelCanBeDelivered_error_code)
    moreover from False f have "generateTruckSteps Number_toString deliveries truckPath = StatusError e"
      by (simp add: generateTruckSteps_def Let_def)
    ultimately show ?thesis by auto
  qed
next
  show "parcelsAreAllDeliverable maybeSteps \<or> (\<exists>e. find isl maybeSteps = Some (Inl e))"
    using find_isl_located [of maybeSteps] by (auto simp: parcelsAreAllDeliverable_def)
qed

section \<open>Claims about the steps of a success\<close>

text \<open>
  C6. On the parcels (1, 3) and (2, 5) and the truck path 1, 2, 3, 4, 5,
  generateTruckSteps succeeds with the steps: pickup at 1, pickup at 2, dropoff at 3,
  no action at 4, dropoff at 5.
\<close>

theorem generateTruckSteps_exemple_1:
  "generateTruckSteps Number_toString
     [\<lparr>pickupAddress = 1, dropoffAddress = 3\<rparr>, \<lparr>pickupAddress = 2, dropoffAddress = 5\<rparr>]
     [1, 2, 3, 4, 5] =
   StatusSuccess
     [Some \<lparr>address = 1, action = Pickup\<rparr>,
      Some \<lparr>address = 2, action = Pickup\<rparr>,
      Some \<lparr>address = 3, action = Dropoff\<rparr>,
      Some \<lparr>address = 4, action = ActionNull\<rparr>,
      Some \<lparr>address = 5, action = Dropoff\<rparr>]"
  by code_simp

lemma bitLength_le: "n < 2 ^ k \<Longrightarrow> bitLength n \<le> k"
proof (induction k arbitrary: n)
  case 0
  then show ?case by (simp add: bitLength.simps [of n])
next
  case (Suc k)
  show ?case
  proof (cases "n \<le> 0")
    case True
    then show ?thesis by (simp add: bitLength.simps [of n])
  next
    case False
    from Suc.prems have "n div 2 < 2 ^ k" by simp
    then have "bitLength (n div 2) \<le> k" by (rule Suc.IH)
    with False show ?thesis by (simp add: bitLength.simps [of n])
  qed
qed

lemma roundToDouble_exact:
  assumes "- (2 ^ 53) \<le> n" "n \<le> 2 ^ 53"
  shows "roundToDouble n = n"
proof (cases "\<bar>n\<bar> < 2 ^ 53")
  case True
  then have "bitLength \<bar>n\<bar> \<le> 53" by (rule bitLength_le)
  then show ?thesis by (simp add: roundToDouble_def Let_def)
next
  case False
  with assms have "n = 9007199254740992 \<or> n = - 9007199254740992" by (simp; linarith)
  moreover have "roundToDouble 9007199254740992 = 9007199254740992" by code_simp
  moreover have "roundToDouble (- 9007199254740992) = - 9007199254740992" by code_simp
  ultimately show ?thesis by auto
qed

lemma numberAdd_exact:
  assumes "exactAddress a"
  shows "numberAdd a 1 = a + 1" and "numberAdd a 2 = a + 2"
  using assms by (simp_all add: exactAddress_def numberAdd_def roundToDouble_exact)

lemma foldl_snoc_concat: "foldl (\<lambda>acc i. acc @ f i) a is = a @ concat (map f is)"
  by (induction "is" arbitrary: a) simp_all

lemma fullSteps_concat:
  "fullSteps steps =
     concat (map (\<lambda>i. if Suc i < length steps
                          \<and> address (steps ! Suc i) = numberAdd (address (steps ! i)) 2
                       then [steps ! i,
                             \<lparr>address = numberAdd (address (steps ! i)) 1, action = ActionNull\<rparr>]
                       else [steps ! i])
               [0..<length steps])"
proof -
  let ?g = "\<lambda>i. if i = length steps - 1 then [steps ! i]
                 else if address (steps ! (i + 1)) = numberAdd (address (steps ! i)) 2
                      then [steps ! i,
                            \<lparr>address = numberAdd (address (steps ! i)) 1, action = ActionNull\<rparr>]
                      else [steps ! i]"
  have "fullSteps steps = foldl (\<lambda>acc i. acc @ ?g i) [] [0..<length steps]"
    unfolding fullSteps_def Let_def
    by (rule arg_cong [of _ _ "\<lambda>f. foldl f [] [0..<length steps]"]) (intro ext, simp)
  also have "\<dots> = concat (map ?g [0..<length steps])"
    by (simp add: foldl_snoc_concat)
  also have "\<dots> = concat (map (\<lambda>i. if Suc i < length steps
                          \<and> address (steps ! Suc i) = numberAdd (address (steps ! i)) 2
                       then [steps ! i,
                             \<lparr>address = numberAdd (address (steps ! i)) 1, action = ActionNull\<rparr>]
                       else [steps ! i])
               [0..<length steps])"
    by (rule arg_cong [of _ _ concat], rule map_cong) auto
  finally show ?thesis .
qed

lemma fullSteps_gapFill:
  assumes "\<forall>x\<in>set steps. exactAddress (address x)"
  shows "fullSteps steps = gapFill_spec steps"
  unfolding fullSteps_concat gapFill_spec_def
  by (rule arg_cong [of _ _ concat], rule map_cong) (use assms in \<open>simp_all add: numberAdd_exact\<close>)

lemma filter_fullSteps:
  assumes "\<forall>x\<in>set s. action x \<noteq> ActionNull"
  shows "filter (\<lambda>x. action x \<noteq> ActionNull) (fullSteps s) = s"
proof -
  let ?P = "\<lambda>x. action x \<noteq> ActionNull"
  let ?f = "\<lambda>i. if Suc i < length s \<and> address (s ! Suc i) = numberAdd (address (s ! i)) 2
                 then [s ! i, \<lparr>address = numberAdd (address (s ! i)) 1, action = ActionNull\<rparr>]
                 else [s ! i]"
  have "filter ?P (fullSteps s) = concat (map (\<lambda>i. filter ?P (?f i)) [0..<length s])"
    by (simp add: fullSteps_concat filter_concat comp_def)
  also have "\<dots> = concat (map (\<lambda>i. [s ! i]) [0..<length s])"
    by (rule arg_cong [of _ _ concat], rule map_cong) (use assms in auto)
  also have "\<dots> = s"
    by (simp add: map_nth)
  finally show ?thesis .
qed

lemma length_fullSteps:
  assumes "\<forall>x\<in>set s. action x \<noteq> ActionNull"
  shows "length (fullSteps s) =
         length s + length (filter (\<lambda>x. action x = ActionNull) (fullSteps s))"
proof -
  have "length (fullSteps s) =
        length (filter (\<lambda>x. action x \<noteq> ActionNull) (fullSteps s)) +
        length (filter (\<lambda>x. \<not> action x \<noteq> ActionNull) (fullSteps s))"
    by (rule sum_length_filter_compl [symmetric])
  then show ?thesis
    by (simp add: filter_fullSteps [OF assms])
qed

lemma flatSteps_addresses:
  assumes "list_all (\<lambda>p. exactAddress (pickupAddress p) \<and> exactAddress (dropoffAddress p)) deliveries"
  shows "\<forall>x\<in>set (flatSteps_spec deliveries). exactAddress (address x)"
  using assms by (auto simp: flatSteps_spec_def list_all_iff)

lemma feasible_pair:
  "\<not> isl (parcelCanBeDelivered Number_toString parcel truckPath) \<Longrightarrow>
   projr (parcelCanBeDelivered Number_toString parcel truckPath) =
     (\<lparr>address = pickupAddress parcel, action = Pickup\<rparr>,
      \<lparr>address = dropoffAddress parcel, action = Dropoff\<rparr>)"
  by (simp add: parcelCanBeDelivered_def Let_def split: if_splits)

lemma feasible_flatSteps:
  assumes "list_all (\<lambda>p. \<not> isl (parcelCanBeDelivered Number_toString p truckPath)) deliveries"
  shows "concat (map (\<lambda>(a, b). [a, b])
           (map projr (map (\<lambda>parcel. parcelCanBeDelivered Number_toString parcel truckPath) deliveries))) =
         flatSteps_spec deliveries"
  using assms by (induction deliveries) (simp_all add: flatSteps_spec_def feasible_pair)

lemma feasible_success:
  assumes "list_all (\<lambda>p. \<not> isl (parcelCanBeDelivered Number_toString p truckPath)) deliveries"
  shows "generateTruckSteps Number_toString deliveries truckPath =
         StatusSuccess (rightOrderStep (fullSteps (sort_key address (flatSteps_spec deliveries))) truckPath)"
proof -
  have "parcelsAreAllDeliverable (map (\<lambda>parcel. parcelCanBeDelivered Number_toString parcel truckPath) deliveries)"
    using assms by (simp add: parcelsAreAllDeliverable_def list_all_iff)
  then show ?thesis
    unfolding generateTruckSteps_def Let_def feasible_flatSteps [OF assms] by simp
qed

lemma flatSteps_actions: "s \<in> set (flatSteps_spec deliveries) \<Longrightarrow> action s \<noteq> ActionNull"
  by (auto simp: flatSteps_spec_def)

lemma length_flatSteps: "length (flatSteps_spec deliveries) = 2 * length deliveries"
  by (induction deliveries) (simp_all add: flatSteps_spec_def)

lemma gapFill_null_iff:
  assumes "\<forall>x\<in>set s. action x \<noteq> ActionNull"
  shows "\<lparr>address = a, action = ActionNull\<rparr> \<in> set (gapFill_spec s) \<longleftrightarrow>
         (\<exists>i. Suc i < length s \<and> address (s ! i) + 1 = a \<and> address (s ! Suc i) = a + 1)"
proof -
  have act: "\<And>i. i < length s \<Longrightarrow> action (s ! i) \<noteq> ActionNull"
    using assms by simp
  have nth: "\<And>i. i < length s \<Longrightarrow> \<lparr>address = a, action = ActionNull\<rparr> \<noteq> s ! i"
    using act by (metis Step.select_convs(2))
  show ?thesis
    unfolding gapFill_spec_def
    by (auto simp: nth split: if_splits)
qed

lemma rightOrderStep_nth:
  "i < length full \<Longrightarrow>
   rightOrderStep full truckPath ! i =
     (if i < length truckPath then find (\<lambda>step. address step = truckPath ! i) full else None)"
  by (simp add: rightOrderStep_def)

lemma length_rightOrderStep: "length (rightOrderStep full truckPath) = length full"
  by (simp add: rightOrderStep_def)

text \<open>
  C3, as the code has it. When every parcel is feasible and every pickup and dropoff
  address a is an integer from - 2^53 to 2^53 - 2, so that the code's a + 1 and a + 2
  are exact, generateTruckSteps flattens the step pairs, sorts them ascending by
  address (\<open>steps\<close>), and gap-fills: the code's \<^verbatim>\<open>reduce\<close> is the gap-fill of the
  specification, which puts a synthetic step with no action at \<open>s[i].address + 1\<close>
  after \<open>s[i]\<close> exactly when \<open>s[i+1].address = s[i].address + 2\<close>. The success is built
  from the gap-filled steps, and a step with no action is among them at address a
  exactly when two adjacent sorted steps have the addresses a - 1 and a + 1: a wider
  gap gets no step.
\<close>

theorem generateTruckSteps_gap_fill:
  assumes "list_all (\<lambda>p. \<not> isl (parcelCanBeDelivered Number_toString p truckPath)) deliveries"
    and "list_all (\<lambda>p. exactAddress (pickupAddress p) \<and> exactAddress (dropoffAddress p))
           deliveries"
  shows "\<exists>steps. steps = sort_key address (flatSteps_spec deliveries)
      \<and> sorted (map address steps)
      \<and> fullSteps steps = gapFill_spec steps
      \<and> generateTruckSteps Number_toString deliveries truckPath =
          StatusSuccess (rightOrderStep (gapFill_spec steps) truckPath)
      \<and> (\<forall>a. \<lparr>address = a, action = ActionNull\<rparr> \<in> set (gapFill_spec steps) \<longleftrightarrow>
              (\<exists>i. Suc i < length steps \<and> address (steps ! i) + 1 = a
                   \<and> address (steps ! Suc i) = a + 1))"
proof -
  let ?steps = "sort_key address (flatSteps_spec deliveries)"
  have acts: "\<forall>x\<in>set ?steps. action x \<noteq> ActionNull"
    by (simp add: flatSteps_actions)
  have exact: "\<forall>x\<in>set ?steps. exactAddress (address x)"
    using flatSteps_addresses [OF assms(2)] by simp
  have fill: "fullSteps ?steps = gapFill_spec ?steps"
    using exact by (rule fullSteps_gapFill)
  have "sorted (map address ?steps)"
    by (rule sorted_sort_key)
  moreover have "generateTruckSteps Number_toString deliveries truckPath =
      StatusSuccess (rightOrderStep (gapFill_spec ?steps) truckPath)"
    using feasible_success [OF assms(1)] by (simp add: fill)
  moreover have "\<forall>a. \<lparr>address = a, action = ActionNull\<rparr> \<in> set (gapFill_spec ?steps) \<longleftrightarrow>
              (\<exists>i. Suc i < length ?steps \<and> address (?steps ! i) + 1 = a
                   \<and> address (?steps ! Suc i) = a + 1)"
    using gapFill_null_iff [OF acts] by blast
  ultimately show ?thesis using fill by blast
qed

text \<open>
  C3 as stated fails for large addresses. The parcel from 2^54 + 4 to 2^54 + 8 is
  feasible on the path of these two addresses, and its addresses are four apart: three
  integer addresses are missing between them. The code's \<open>a + 2\<close> at a = 2^54 + 4
  rounds to 2^54 + 8, the next address, so the code inserts a step with no action (at
  the rounded \<open>a + 1\<close>, which is a itself) and the success has three entries; the
  gap-fill of the specification inserts nothing there.
\<close>

theorem generateTruckSteps_gap_fill_counterexample:
  "generateTruckSteps Number_toString_table
     [\<lparr>pickupAddress = 18014398509481988, dropoffAddress = 18014398509481992\<rparr>]
     [18014398509481988, 18014398509481992] =
     StatusSuccess
       [Some \<lparr>address = 18014398509481988, action = Pickup\<rparr>,
        Some \<lparr>address = 18014398509481992, action = Dropoff\<rparr>, None]
   \<and> fullSteps (sort_key address (flatSteps_spec
         [\<lparr>pickupAddress = 18014398509481988, dropoffAddress = 18014398509481992\<rparr>])) =
       [\<lparr>address = 18014398509481988, action = Pickup\<rparr>,
        \<lparr>address = 18014398509481988, action = ActionNull\<rparr>,
        \<lparr>address = 18014398509481992, action = Dropoff\<rparr>]
   \<and> gapFill_spec (sort_key address (flatSteps_spec
         [\<lparr>pickupAddress = 18014398509481988, dropoffAddress = 18014398509481992\<rparr>])) =
       [\<lparr>address = 18014398509481988, action = Pickup\<rparr>,
        \<lparr>address = 18014398509481992, action = Dropoff\<rparr>]
   \<and> (18014398509481992 :: int) = 18014398509481988 + 4"
proof (intro conjI)
  show "generateTruckSteps Number_toString_table
     [\<lparr>pickupAddress = 18014398509481988, dropoffAddress = 18014398509481992\<rparr>]
     [18014398509481988, 18014398509481992] =
     StatusSuccess
       [Some \<lparr>address = 18014398509481988, action = Pickup\<rparr>,
        Some \<lparr>address = 18014398509481992, action = Dropoff\<rparr>, None]"
    by code_simp
  show "fullSteps (sort_key address (flatSteps_spec
         [\<lparr>pickupAddress = 18014398509481988, dropoffAddress = 18014398509481992\<rparr>])) =
       [\<lparr>address = 18014398509481988, action = Pickup\<rparr>,
        \<lparr>address = 18014398509481988, action = ActionNull\<rparr>,
        \<lparr>address = 18014398509481992, action = Dropoff\<rparr>]"
    by code_simp
  show "gapFill_spec (sort_key address (flatSteps_spec
         [\<lparr>pickupAddress = 18014398509481988, dropoffAddress = 18014398509481992\<rparr>])) =
       [\<lparr>address = 18014398509481988, action = Pickup\<rparr>,
        \<lparr>address = 18014398509481992, action = Dropoff\<rparr>]"
    by code_simp
  show "(18014398509481992 :: int) = 18014398509481988 + 4"
    by simp
qed

theorem generateTruckSteps_gap_fill_witness:
  "gapFill_spec (sort_key address (flatSteps_spec
     [\<lparr>pickupAddress = 1, dropoffAddress = 3\<rparr>, \<lparr>pickupAddress = 4, dropoffAddress = 8\<rparr>])) =
     [\<lparr>address = 1, action = Pickup\<rparr>, \<lparr>address = 2, action = ActionNull\<rparr>,
      \<lparr>address = 3, action = Dropoff\<rparr>, \<lparr>address = 4, action = Pickup\<rparr>,
      \<lparr>address = 8, action = Dropoff\<rparr>] \<and>
   generateTruckSteps Number_toString_table
     [\<lparr>pickupAddress = 1, dropoffAddress = 3\<rparr>, \<lparr>pickupAddress = 4, dropoffAddress = 8\<rparr>]
     [1, 3, 4, 8] =
   StatusSuccess
     [Some \<lparr>address = 1, action = Pickup\<rparr>, Some \<lparr>address = 3, action = Dropoff\<rparr>,
      Some \<lparr>address = 4, action = Pickup\<rparr>, Some \<lparr>address = 8, action = Dropoff\<rparr>, None]"
proof -
  let ?ds = "[\<lparr>pickupAddress = 1, dropoffAddress = 3\<rparr>, \<lparr>pickupAddress = 4, dropoffAddress = 8\<rparr>]"
  have ok: "list_all (\<lambda>p. \<not> isl (parcelCanBeDelivered Number_toString_table p [1, 3, 4, 8])) ?ds"
    by code_simp
  have ex: "list_all (\<lambda>p. exactAddress (pickupAddress p) \<and> exactAddress (dropoffAddress p)) ?ds"
    by (simp add: exactAddress_def)
  have g: "gapFill_spec (sort_key address (flatSteps_spec ?ds)) =
     [\<lparr>address = 1, action = Pickup\<rparr>, \<lparr>address = 2, action = ActionNull\<rparr>,
      \<lparr>address = 3, action = Dropoff\<rparr>, \<lparr>address = 4, action = Pickup\<rparr>,
      \<lparr>address = 8, action = Dropoff\<rparr>]"
    by code_simp
  have r: "rightOrderStep
     [\<lparr>address = 1, action = Pickup\<rparr>, \<lparr>address = 2, action = ActionNull\<rparr>,
      \<lparr>address = 3, action = Dropoff\<rparr>, \<lparr>address = 4, action = Pickup\<rparr>,
      \<lparr>address = 8, action = Dropoff\<rparr>] [1, 3, 4, 8] =
     [Some \<lparr>address = 1, action = Pickup\<rparr>, Some \<lparr>address = 3, action = Dropoff\<rparr>,
      Some \<lparr>address = 4, action = Pickup\<rparr>, Some \<lparr>address = 8, action = Dropoff\<rparr>, None]"
    by code_simp
  from generateTruckSteps_gap_fill [OF ok ex]
  have "generateTruckSteps Number_toString_table ?ds [1, 3, 4, 8] =
      StatusSuccess (rightOrderStep (gapFill_spec (sort_key address (flatSteps_spec ?ds))) [1, 3, 4, 8])"
    by blast
  then show ?thesis
    by (simp only: g r simp_thms)
qed

text \<open>
  C9. When every parcel is feasible, the steps of the success are as many as the
  gap-filled steps the code builds, that is twice the number of parcels plus the number
  of inserted steps with no action, whatever the length of the truck path. The entry at
  index i is absent exactly when i is beyond the end of the truck path or no gap-filled
  step has the address truckPath[i]; an entry that is there is a gap-filled step whose
  address is truckPath[i].
\<close>

theorem generateTruckSteps_steps_shape:
  assumes "list_all (\<lambda>p. \<not> isl (parcelCanBeDelivered Number_toString p truckPath)) deliveries"
  shows "\<exists>out full. full = fullSteps (sort_key address (flatSteps_spec deliveries))
      \<and> generateTruckSteps Number_toString deliveries truckPath = StatusSuccess out
      \<and> length out = length full
      \<and> length full =
          2 * length deliveries + length (filter (\<lambda>s. action s = ActionNull) full)
      \<and> (\<forall>i<length out.
            (out ! i = None \<longleftrightarrow>
               (length truckPath \<le> i \<or> \<not> (\<exists>s\<in>set full. address s = truckPath ! i)))
          \<and> (\<forall>s. out ! i = Some s \<longrightarrow>
                 i < length truckPath \<and> s \<in> set full \<and> address s = truckPath ! i))"
proof -
  let ?steps = "sort_key address (flatSteps_spec deliveries)"
  let ?full = "fullSteps ?steps"
  let ?out = "rightOrderStep ?full truckPath"
  have acts: "\<forall>x\<in>set ?steps. action x \<noteq> ActionNull"
    by (simp add: flatSteps_actions)
  have 1: "generateTruckSteps Number_toString deliveries truckPath = StatusSuccess ?out"
    by (rule feasible_success [OF assms])
  have 2: "length ?out = length ?full"
    by (rule length_rightOrderStep)
  have 3: "length ?full =
          2 * length deliveries + length (filter (\<lambda>s. action s = ActionNull) ?full)"
    using length_fullSteps [OF acts] by (simp add: length_flatSteps)
  have 4: "\<forall>i<length ?out.
            (?out ! i = None \<longleftrightarrow>
               (length truckPath \<le> i \<or> \<not> (\<exists>s\<in>set ?full. address s = truckPath ! i)))
          \<and> (\<forall>s. ?out ! i = Some s \<longrightarrow>
                 i < length truckPath \<and> s \<in> set ?full \<and> address s = truckPath ! i)"
  proof (intro allI impI)
    fix i assume "i < length ?out"
    then have i: "i < length ?full" by (simp add: length_rightOrderStep)
    show "(?out ! i = None \<longleftrightarrow>
               (length truckPath \<le> i \<or> \<not> (\<exists>s\<in>set ?full. address s = truckPath ! i)))
          \<and> (\<forall>s. ?out ! i = Some s \<longrightarrow>
                 i < length truckPath \<and> s \<in> set ?full \<and> address s = truckPath ! i)"
      unfolding rightOrderStep_nth [OF i]
      by (auto simp: find_None_iff find_Some_iff)
  qed
  from 1 2 3 4 show ?thesis by blast
qed

theorem generateTruckSteps_steps_shape_witness:
  "(\<exists>out. generateTruckSteps Number_toString_table
            [\<lparr>pickupAddress = 1, dropoffAddress = 3\<rparr>] [1, 3] = StatusSuccess out
      \<and> length out = 3 \<and> out ! 2 = None)
   \<and> (\<exists>out. generateTruckSteps Number_toString_table
            [\<lparr>pickupAddress = 18014398509481988, dropoffAddress = 18014398509481992\<rparr>]
            [18014398509481988, 18014398509481992] = StatusSuccess out
      \<and> length out = 3 \<and> out ! 2 = None)"
proof
  let ?ds = "[\<lparr>pickupAddress = 1, dropoffAddress = 3\<rparr>]"
  let ?full = "fullSteps (sort_key address (flatSteps_spec ?ds))"
  have ok: "list_all (\<lambda>p. \<not> isl (parcelCanBeDelivered Number_toString_table p [1, 3])) ?ds"
    by code_simp
  have f: "?full =
     [\<lparr>address = 1, action = Pickup\<rparr>, \<lparr>address = 2, action = ActionNull\<rparr>,
      \<lparr>address = 3, action = Dropoff\<rparr>]"
    by code_simp
  from generateTruckSteps_steps_shape [OF ok] obtain out where
    o: "generateTruckSteps Number_toString_table ?ds [1, 3] = StatusSuccess out"
    and l: "length out = length ?full"
    and e: "\<forall>i<length out.
            (out ! i = None \<longleftrightarrow>
               (length [1, 3 :: int] \<le> i \<or> \<not> (\<exists>s\<in>set ?full. address s = [1, 3] ! i)))
          \<and> (\<forall>s. out ! i = Some s \<longrightarrow>
                 i < length [1, 3 :: int] \<and> s \<in> set ?full \<and> address s = [1, 3] ! i)"
    by blast
  from l f have len: "length out = 3" by simp
  with e have "out ! 2 = None \<longleftrightarrow>
      (length [1, 3 :: int] \<le> 2 \<or> \<not> (\<exists>s\<in>set ?full. address s = [1, 3] ! 2))"
    by simp
  then have "out ! 2 = None" by simp
  with o len show "\<exists>out. generateTruckSteps Number_toString_table ?ds [1, 3] = StatusSuccess out
      \<and> length out = 3 \<and> out ! 2 = None"
    by blast
next
  let ?ds = "[\<lparr>pickupAddress = 18014398509481988, dropoffAddress = 18014398509481992\<rparr>]"
  let ?path = "[18014398509481988, 18014398509481992 :: int]"
  let ?full = "fullSteps (sort_key address (flatSteps_spec ?ds))"
  have ok: "list_all (\<lambda>p. \<not> isl (parcelCanBeDelivered Number_toString_table p ?path)) ?ds"
    by code_simp
  have f: "?full =
     [\<lparr>address = 18014398509481988, action = Pickup\<rparr>, \<lparr>address = 18014398509481988, action = ActionNull\<rparr>,
      \<lparr>address = 18014398509481992, action = Dropoff\<rparr>]"
    by code_simp
  from generateTruckSteps_steps_shape [OF ok] obtain out where
    o: "generateTruckSteps Number_toString_table ?ds ?path = StatusSuccess out"
    and l: "length out = length ?full"
    and e: "\<forall>i<length out.
            (out ! i = None \<longleftrightarrow>
               (length ?path \<le> i \<or> \<not> (\<exists>s\<in>set ?full. address s = ?path ! i)))
          \<and> (\<forall>s. out ! i = Some s \<longrightarrow>
                 i < length ?path \<and> s \<in> set ?full \<and> address s = ?path ! i)"
    by blast
  from l f have len: "length out = 3" by simp
  with e have "out ! 2 = None \<longleftrightarrow>
      (length ?path \<le> 2 \<or> \<not> (\<exists>s\<in>set ?full. address s = ?path ! 2))"
    by simp
  then have "out ! 2 = None" by simp
  with o len show "\<exists>out. generateTruckSteps Number_toString_table ?ds ?path = StatusSuccess out
      \<and> length out = 3 \<and> out ! 2 = None"
    by blast
qed

section \<open>Claims about the entry point\<close>

text \<open>The type guards lose nothing: a validated value is its typed reading.\<close>

lemma asNumber_lossless: "isNumber v \<Longrightarrow> map_option JNumber (asNumber v) = Some v"
  by (cases v) simp_all

lemma asTruckPath_lossless: "isTruckPath v \<Longrightarrow> v = JArray (map JNumber (asTruckPath v))"
proof (cases v)
  case (JArray xs)
  assume "isTruckPath v"
  with JArray have "list_all isNumber xs" by simp
  then have "map JNumber (List.map_filter asNumber xs) = xs"
  proof (induction xs)
    case Nil
    then show ?case by (simp add: map_filter_simps)
  next
    case (Cons x xs)
    then obtain n where "x = JNumber n" by (cases x) simp_all
    with Cons show ?case by (simp add: map_filter_simps)
  qed
  with JArray show ?thesis by simp
qed simp_all

lemma asParcel_lossless:
  assumes "isParcel v = Inr True"
  shows "\<exists>p. asParcel v = Some p
     \<and> getField v ''pickupAddress'' = Inr (JNumber (pickupAddress p))
     \<and> getField v ''dropoffAddress'' = Inr (JNumber (dropoffAddress p))"
proof (cases v)
  case (JObject kvs)
  from assms JObject obtain a b where
    ab: "map_of kvs ''pickupAddress'' = Some a" "map_of kvs ''dropoffAddress'' = Some b"
      "isNumber a" "isNumber b"
    by (auto simp: isParcel_def split: option.splits if_splits)
  then obtain m n where "a = JNumber m" "b = JNumber n"
    by (cases a; cases b) simp_all
  with ab JObject show ?thesis by simp
qed (use assms in \<open>simp_all add: isParcel_def\<close>)

lemma ParcelFromTuple_nonnull:
  "tuple \<noteq> JNull \<Longrightarrow> tuple \<noteq> Undefined \<Longrightarrow>
   \<exists>p d. ParcelFromTuple tuple = Inr (JObject [(''pickupAddress'', p), (''dropoffAddress'', d)])"
  by (cases tuple) (simp_all add: ParcelFromTuple_def)

lemma ParcelFromTuple_null:
  "tuple = JNull \<or> tuple = Undefined \<Longrightarrow> ParcelFromTuple tuple = Inl TypeError"
  by (auto simp: ParcelFromTuple_def)

lemma isParcel_mapped:
  "\<exists>ok. isParcel (JObject [(''pickupAddress'', p), (''dropoffAddress'', d)]) = Inr ok"
  by (auto simp: isParcel_def)

lemma mapThrowing_null:
  "\<not> list_all (\<lambda>x. x \<noteq> JNull \<and> x \<noteq> Undefined) tuples \<Longrightarrow>
   mapThrowing ParcelFromTuple tuples = Inl TypeError"
proof (induction tuples)
  case Nil
  then show ?case by simp
next
  case (Cons x xs)
  show ?case
  proof (cases "x = JNull \<or> x = Undefined")
    case True
    then show ?thesis by (simp add: ParcelFromTuple_null)
  next
    case False
    then obtain p d where "ParcelFromTuple x = Inr (JObject [(''pickupAddress'', p), (''dropoffAddress'', d)])"
      using ParcelFromTuple_nonnull by blast
    moreover from False Cons have "mapThrowing ParcelFromTuple xs = Inl TypeError" by simp
    ultimately show ?thesis by simp
  qed
qed

lemma mapThrowing_nonnull:
  "list_all (\<lambda>x. x \<noteq> JNull \<and> x \<noteq> Undefined) tuples \<Longrightarrow>
   \<exists>ps ok. mapThrowing ParcelFromTuple tuples = Inr ps \<and> length ps = length tuples
     \<and> everyThrowing isParcel ps = Inr ok"
proof (induction tuples)
  case Nil
  then show ?case by auto
next
  case (Cons x xs)
  from Cons.prems have "list_all (\<lambda>x. x \<noteq> JNull \<and> x \<noteq> Undefined) xs"
    by simp
  from Cons.IH [OF this] obtain ps ok where
    ps: "mapThrowing ParcelFromTuple xs = Inr ps" "length ps = length xs"
      "everyThrowing isParcel ps = Inr ok"
    by blast
  from Cons.prems obtain p d where
    x: "ParcelFromTuple x = Inr (JObject [(''pickupAddress'', p), (''dropoffAddress'', d)])"
    using ParcelFromTuple_nonnull [of x] by auto
  obtain b where b: "isParcel (JObject [(''pickupAddress'', p), (''dropoffAddress'', d)]) = Inr b"
    using isParcel_mapped by blast
  show ?case
    using ps x b by (cases b) auto
qed

text \<open>
  C7, as the code has it. \<^verbatim>\<open>main\<close> returns 1 when an argument is missing or is the
  empty text. With both arguments there: when \<^verbatim>\<open>JSON.parse\<close> rejects argument 1,
  \<^verbatim>\<open>main\<close> throws the SyntaxError; it returns 2 when argument 1 decodes to a value that
  is not an array or to the empty array; when argument 1 decodes to a non-empty array,
  it throws a TypeError if an element is \<^verbatim>\<open>null\<close>, and otherwise throws the SyntaxError
  when \<^verbatim>\<open>JSON.parse\<close> rejects argument 2, and otherwise returns 2 when the mapped
  parcels fail the validation of \<^verbatim>\<open>isDeliveries\<close>, else 4 when the decoded argument 2
  fails the validation of \<^verbatim>\<open>isTruckPath\<close>, else 0 after printing the result of
  generateTruckSteps.
\<close>

theorem main_exit_codes:
  "(argv2 = None \<or> argv2 = Some [] \<or> argv3 = None \<or> argv3 = Some [] \<longrightarrow>
      main JSON_parse Number_toString argv2 argv3 =
        Inr ([LogText ''Usage: node deliverychecker.js <deliveries> <truckPath>''], 1))
   \<and> (d \<noteq> [] \<and> t \<noteq> [] \<and> JSON_parse d = None \<longrightarrow>
        main JSON_parse Number_toString (Some d) (Some t) = Inl SyntaxError)
   \<and> (d \<noteq> [] \<and> t \<noteq> [] \<and> JSON_parse d = Some v \<and> \<not> nonEmptyArray v \<longrightarrow>
        main JSON_parse Number_toString (Some d) (Some t) = Inr ([LogText ''Invalid deliveries''], 2))
   \<and> (d \<noteq> [] \<and> t \<noteq> [] \<and> JSON_parse d = Some (JArray tuples) \<and> tuples \<noteq> [] \<longrightarrow>
        (\<not> list_all (\<lambda>x. x \<noteq> JNull \<and> x \<noteq> Undefined) tuples \<longrightarrow>
           main JSON_parse Number_toString (Some d) (Some t) = Inl TypeError)
      \<and> (list_all (\<lambda>x. x \<noteq> JNull \<and> x \<noteq> Undefined) tuples \<longrightarrow>
           (JSON_parse t = None \<longrightarrow> main JSON_parse Number_toString (Some d) (Some t) = Inl SyntaxError)
         \<and> (\<forall>truckPath. JSON_parse t = Some truckPath \<longrightarrow>
              (\<exists>deliveries ok.
                 mapThrowing ParcelFromTuple tuples = Inr deliveries
               \<and> isDeliveries (JArray deliveries) = Inr ok
               \<and> main JSON_parse Number_toString (Some d) (Some t) =
                   (if \<not> ok then Inr ([LogText ''Invalid deliveries''], 2)
                    else if \<not> isTruckPath truckPath then Inr ([LogText ''Invalid truckPath''], 4)
                    else Inr ([LogResult
                                (generateTruckSteps Number_toString (List.map_filter asParcel deliveries)
                                   (asTruckPath truckPath))], 0))))))"
proof (intro conjI impI allI)
  assume "argv2 = None \<or> argv2 = Some [] \<or> argv3 = None \<or> argv3 = Some []"
  then show "main JSON_parse Number_toString argv2 argv3 =
        Inr ([LogText ''Usage: node deliverychecker.js <deliveries> <truckPath>''], 1)"
    by (auto simp: main_def split: option.splits)
next
  assume "d \<noteq> [] \<and> t \<noteq> [] \<and> JSON_parse d = None"
  then show "main JSON_parse Number_toString (Some d) (Some t) = Inl SyntaxError"
    by (simp add: main_def)
next
  assume "d \<noteq> [] \<and> t \<noteq> [] \<and> JSON_parse d = Some v \<and> \<not> nonEmptyArray v"
  then show "main JSON_parse Number_toString (Some d) (Some t) = Inr ([LogText ''Invalid deliveries''], 2)"
    by (cases v) (simp_all add: main_def)
next
  assume a: "d \<noteq> [] \<and> t \<noteq> [] \<and> JSON_parse d = Some (JArray tuples) \<and> tuples \<noteq> []"
    and "\<not> list_all (\<lambda>x. x \<noteq> JNull \<and> x \<noteq> Undefined) tuples"
  then have "mapThrowing ParcelFromTuple tuples = Inl TypeError"
    using mapThrowing_null by blast
  with a show "main JSON_parse Number_toString (Some d) (Some t) = Inl TypeError"
    by (simp add: main_def)
next
  assume a: "d \<noteq> [] \<and> t \<noteq> [] \<and> JSON_parse d = Some (JArray tuples) \<and> tuples \<noteq> []"
    and n: "list_all (\<lambda>x. x \<noteq> JNull \<and> x \<noteq> Undefined) tuples"
    and p: "JSON_parse t = None"
  from mapThrowing_nonnull [OF n] obtain ps where "mapThrowing ParcelFromTuple tuples = Inr ps"
    by blast
  with a p show "main JSON_parse Number_toString (Some d) (Some t) = Inl SyntaxError"
    by (simp add: main_def)
next
  fix truckPath
  assume a: "d \<noteq> [] \<and> t \<noteq> [] \<and> JSON_parse d = Some (JArray tuples) \<and> tuples \<noteq> []"
    and n: "list_all (\<lambda>x. x \<noteq> JNull \<and> x \<noteq> Undefined) tuples"
    and p: "JSON_parse t = Some truckPath"
  from mapThrowing_nonnull [OF n] obtain ps ok where
    ps: "mapThrowing ParcelFromTuple tuples = Inr ps" "length ps = length tuples"
      "everyThrowing isParcel ps = Inr ok"
    by blast
  from a ps have i: "isDeliveries (JArray ps) = Inr ok" by simp
  have "main JSON_parse Number_toString (Some d) (Some t) =
                   (if \<not> ok then Inr ([LogText ''Invalid deliveries''], 2)
                    else if \<not> isTruckPath truckPath then Inr ([LogText ''Invalid truckPath''], 4)
                    else Inr ([LogResult
                                (generateTruckSteps Number_toString (List.map_filter asParcel ps)
                                   (asTruckPath truckPath))], 0))"
    using a p ps(1) i by (simp add: main_def)
  with ps(1) i show "\<exists>deliveries ok.
                 mapThrowing ParcelFromTuple tuples = Inr deliveries
               \<and> isDeliveries (JArray deliveries) = Inr ok
               \<and> main JSON_parse Number_toString (Some d) (Some t) =
                   (if \<not> ok then Inr ([LogText ''Invalid deliveries''], 2)
                    else if \<not> isTruckPath truckPath then Inr ([LogText ''Invalid truckPath''], 4)
                    else Inr ([LogResult
                                (generateTruckSteps Number_toString (List.map_filter asParcel deliveries)
                                   (asTruckPath truckPath))], 0))"
    by blast
qed


text \<open>
  C7 as stated fails: on an argument 1 that is not JSON, and on an argument 2 that is
  not JSON after a valid argument 1, \<^verbatim>\<open>main\<close> returns neither 2 nor 4: the SyntaxError
  of \<^verbatim>\<open>JSON.parse\<close> leaves it.
\<close>

theorem main_malformed_json_counterexample:
  "main JSON_parse_table Number_toString_table (Some ''[[1, 2'') (Some ''[1, 2]'') = Inl SyntaxError
   \<and> main JSON_parse_table Number_toString_table (Some ''[[1, 2]]'') (Some ''[1, 2'') = Inl SyntaxError"
  by code_simp

theorem main_exit_codes_witness:
  "main JSON_parse_table Number_toString_table None None =
     Inr ([LogText ''Usage: node deliverychecker.js <deliveries> <truckPath>''], 1)
   \<and> main JSON_parse_table Number_toString_table (Some ''1'') (Some ''2'') = Inr ([LogText ''Invalid deliveries''], 2)
   \<and> main JSON_parse_table Number_toString_table (Some ''[[1, 2]]'') (Some ''2'') = Inr ([LogText ''Invalid truckPath''], 4)
   \<and> main JSON_parse_table Number_toString_table (Some ''[[1, 2]]'') (Some ''[1, 2]'') =
       Inr ([LogResult (StatusSuccess [Some \<lparr>address = 1, action = Pickup\<rparr>,
                                       Some \<lparr>address = 2, action = Dropoff\<rparr>])], 0)"
proof (intro conjI)
  show "main JSON_parse_table Number_toString_table None None =
     Inr ([LogText ''Usage: node deliverychecker.js <deliveries> <truckPath>''], 1)"
    using main_exit_codes [where ?argv2.0 = None and ?argv3.0 = None
        and JSON_parse = JSON_parse_table and Number_toString = Number_toString_table]
    by simp
next
  have "JSON_parse_table ''1'' = Some (JNumber 1)" by (simp add: JSON_parse_table_def)
  then show "main JSON_parse_table Number_toString_table (Some ''1'') (Some ''2'') = Inr ([LogText ''Invalid deliveries''], 2)"
    using main_exit_codes [where d = "''1''" and t = "''2''" and JSON_parse = JSON_parse_table
        and v = "JNumber 1" and Number_toString = Number_toString_table]
    by simp
next
  let ?tuples = "[JArray [JNumber 1, JNumber 2]]"
  have d: "JSON_parse_table ''[[1, 2]]'' = Some (JArray ?tuples)"
    by (simp add: JSON_parse_table_def)
  have m: "mapThrowing ParcelFromTuple ?tuples =
      Inr [JObject [(''pickupAddress'', JNumber 1), (''dropoffAddress'', JNumber 2)]]"
    by (simp add: ParcelFromTuple_def)
  have i: "isDeliveries (JArray [JObject [(''pickupAddress'', JNumber 1), (''dropoffAddress'', JNumber 2)]]) = Inr True"
    by (simp add: isParcel_def)
  note th = main_exit_codes [where JSON_parse = JSON_parse_table and d = "''[[1, 2]]''"
        and tuples = ?tuples and Number_toString = Number_toString_table]
  have t4: "JSON_parse_table ''2'' = Some (JNumber 2)" by (simp add: JSON_parse_table_def)
  from th [where t = "''2''"] d t4
  have "\<exists>deliveries ok.
                 mapThrowing ParcelFromTuple ?tuples = Inr deliveries
               \<and> isDeliveries (JArray deliveries) = Inr ok
               \<and> main JSON_parse_table Number_toString_table (Some ''[[1, 2]]'') (Some ''2'') =
                   (if \<not> ok then Inr ([LogText ''Invalid deliveries''], 2)
                    else if \<not> isTruckPath (JNumber 2) then Inr ([LogText ''Invalid truckPath''], 4)
                    else Inr ([LogResult
                                (generateTruckSteps Number_toString_table (List.map_filter asParcel deliveries)
                                   (asTruckPath (JNumber 2)))], 0))"
    by simp
  then show "main JSON_parse_table Number_toString_table (Some ''[[1, 2]]'') (Some ''2'') = Inr ([LogText ''Invalid truckPath''], 4)"
    using m i by auto
  have t0: "JSON_parse_table ''[1, 2]'' = Some (JArray [JNumber 1, JNumber 2])"
    by (simp add: JSON_parse_table_def)
  have g: "generateTruckSteps Number_toString_table [\<lparr>pickupAddress = 1, dropoffAddress = 2\<rparr>] [1, 2] =
      StatusSuccess [Some \<lparr>address = 1, action = Pickup\<rparr>, Some \<lparr>address = 2, action = Dropoff\<rparr>]"
    by code_simp
  from th [where t = "''[1, 2]''"] d t0
  have "\<exists>deliveries ok.
                 mapThrowing ParcelFromTuple ?tuples = Inr deliveries
               \<and> isDeliveries (JArray deliveries) = Inr ok
               \<and> main JSON_parse_table Number_toString_table (Some ''[[1, 2]]'') (Some ''[1, 2]'') =
                   (if \<not> ok then Inr ([LogText ''Invalid deliveries''], 2)
                    else if \<not> isTruckPath (JArray [JNumber 1, JNumber 2]) then Inr ([LogText ''Invalid truckPath''], 4)
                    else Inr ([LogResult
                                (generateTruckSteps Number_toString_table (List.map_filter asParcel deliveries)
                                   (asTruckPath (JArray [JNumber 1, JNumber 2])))], 0))"
    by simp
  then show "main JSON_parse_table Number_toString_table (Some ''[[1, 2]]'') (Some ''[1, 2]'') =
       Inr ([LogResult (StatusSuccess [Some \<lparr>address = 1, action = Pickup\<rparr>,
                                       Some \<lparr>address = 2, action = Dropoff\<rparr>])], 0)"
    using m i g by (auto simp: map_filter_simps)
qed

end
